theory Spec2Isabelle
  imports Main "HOL-Library.Word" "HOL-Library.Sublist"
begin

unbundle bit_operations_syntax

section \<open>Strings as the program sees them\<close>

text \<open>
  A \<open>std::string\<close> is a sequence of bytes and may hold the byte 0. Wherever the source
  hands a string over as a \<open>const char*\<close> (\<open>priority.c_str()\<close>, \<open>value.ToChar()\<close>,
  \<open>e.what()\<close>), the receiver sees the bytes before the first 0 only.
\<close>

definition c_str :: "string \<Rightarrow> string" where
  "c_str s = takeWhile (\<lambda>c. c \<noteq> CHR 0x00) s"

text \<open>
  \<open>std::toupper(c, std::locale())\<close> in the classic "C" locale, which is the global locale
  of a process that never installs another one: the letters a..z (97..122) move down by
  32, every other byte stays.
\<close>

definition toupper :: "char \<Rightarrow> char" where
  "toupper c =
     (if 97 \<le> (of_char c :: nat) \<and> (of_char c :: nat) \<le> 122
      then char_of ((of_char c :: nat) - 32) else c)"

text \<open>
  \<open>boost::iequals\<close> (Boost String Algorithms): walks both ranges together, comparing
  the upper-cased elements, and answers true when both ranges end at the same step.
\<close>

fun iequals :: "string \<Rightarrow> string \<Rightarrow> bool" where
  "iequals [] [] = True"
| "iequals (x # xs) (y # ys) = (toupper x = toupper y \<and> iequals xs ys)"
| "iequals _ _ = False"

definition EqualsIgnoreCase :: "string \<Rightarrow> string \<Rightarrow> bool" where
  "EqualsIgnoreCase lhs rhs = (length lhs = length rhs \<and> iequals lhs rhs)"

text \<open>
  The printf-style formatting the log calls use: every format string of the source holds
  exactly one \<open>%s\<close> directive, whose argument is a \<open>const char*\<close>.
\<close>

fun sprintf :: "string \<Rightarrow> string \<Rightarrow> string" where
  "sprintf (c # d # cs) arg =
     (if c = CHR ''%'' \<and> d = CHR ''s'' then c_str arg @ cs else c # sprintf (d # cs) arg)"
| "sprintf cs arg = cs"

section \<open>The process, the operating system and the host\<close>

type_synonym DWORD = "32 word"

text \<open>The priority classes of \<open>Windows.h\<close> (WinBase.h).\<close>

definition NORMAL_PRIORITY_CLASS :: DWORD where
  "NORMAL_PRIORITY_CLASS = 0x20"

definition IDLE_PRIORITY_CLASS :: DWORD where
  "IDLE_PRIORITY_CLASS = 0x40"

definition HIGH_PRIORITY_CLASS :: DWORD where
  "HIGH_PRIORITY_CLASS = 0x80"

definition BELOW_NORMAL_PRIORITY_CLASS :: DWORD where
  "BELOW_NORMAL_PRIORITY_CLASS = 0x4000"

definition ABOVE_NORMAL_PRIORITY_CLASS :: DWORD where
  "ABOVE_NORMAL_PRIORITY_CLASS = 0x8000"

text \<open>The severities the source logs with.\<close>

datatype LogLevel = Info | Error

text \<open>
  The operating-system calls the plugin makes, with their arguments; \<open>'m\<close> is the
  type of an affinity mask, \<open>DWORD_PTR\<close>: a word of the width \<open>'w\<close> of a pointer.
\<close>

datatype 'm os_call =
    GetProcessAffinityMask_call
  | SetProcessAffinityMask_call 'm
  | SetPriorityClass_call DWORD

text \<open>
  Everything the plugin changes or leaves a trace in: the affinity masks and the
  priority class of the process, the calls made to the operating system in order, and
  the lines handed to the logger in order.
\<close>

record 'm world =
  processAffinityMask :: 'm
  systemAffinityMask :: 'm
  priorityClass :: DWORD
  os_calls :: "'m os_call list"
  log :: "(LogLevel \<times> string) list"

text \<open>
  What \<open>SetCPUPriorityFromConfigFile\<close> can find: the stream does not open; the INI
  parser of Boost.PropertyTree throws (with its message); or there is a tree, read here
  by the path of a value.
\<close>

datatype config_file =
    CannotOpen
  | ParseError string
  | Parsed "string \<Rightarrow> string option"

text \<open>
  What the plugin does not decide: the switches of the host's command line
  (\<open>cIGZCmdLine::IsSwitchPresent\<close>, which yields the value of a switch that is
  present), the configuration file, and whether each operating-system call fails
  (\<open>Some\<close> of the system's message) or succeeds. The framework and the command line of
  the host are taken to exist.
\<close>

record 'm host =
  switches :: "string \<Rightarrow> string option"
  configFile :: config_file
  GetProcessAffinityMask_error :: "string option"
  SetProcessAffinityMask_error :: "'m \<Rightarrow> string option"
  SetPriorityClass_error :: "DWORD \<Rightarrow> string option"

text \<open>
  The exceptions of the source. All derive from \<open>std::exception\<close>; a handler for
  \<open>wil::ResultException\<close> catches the first only.
\<close>

datatype exn =
    ResultException string
  | runtime_error string
  | ini_parser_error string
  | ptree_bad_path string

fun what :: "exn \<Rightarrow> string" where
  "what (ResultException m) = m"
| "what (runtime_error m) = m"
| "what (ini_parser_error m) = m"
| "what (ptree_bad_path m) = m"

subsection \<open>The logger\<close>

text \<open>
  Modelled from the spec: \<open>Logger.h\<close> and its implementation are not among the sources.
  The constructor initialises the logger with \<open>LogLevel::Error\<close> and writes a header,
  and the specification says that informational lines are written as well as error
  lines; so every line handed to \<open>WriteLine\<close> is recorded, in order, with its severity,
  after whatever the log held before. \<open>WriteLineFormatted\<close> records the line its
  printf-style format and argument give.
\<close>

definition WriteLine :: "LogLevel \<Rightarrow> string \<Rightarrow> 'w word world \<Rightarrow> 'w word world" where
  "WriteLine level message s = s\<lparr>log := log s @ [(level, message)]\<rparr>"

definition WriteLineFormatted ::
  "LogLevel \<Rightarrow> string \<Rightarrow> string \<Rightarrow> 'w word world \<Rightarrow> 'w word world" where
  "WriteLineFormatted level format arg s = WriteLine level (sprintf format arg) s"

subsection \<open>Operating-system calls under \<open>THROW_IF_WIN32_BOOL_FALSE\<close>\<close>

text \<open>
  Each call is recorded; a failing call throws \<open>wil::ResultException\<close> and changes
  nothing, a successful \<open>Set...\<close> call stores its argument.
\<close>

definition GetProcessAffinityMask ::
  "'w word host \<Rightarrow> 'w word world \<Rightarrow> (exn + 'w word \<times> 'w word) \<times> 'w word world" where
  "GetProcessAffinityMask h s =
     (let s' = s\<lparr>os_calls := os_calls s @ [GetProcessAffinityMask_call]\<rparr> in
      case GetProcessAffinityMask_error h of
        Some m \<Rightarrow> (Inl (ResultException m), s')
      | None \<Rightarrow> (Inr (processAffinityMask s, systemAffinityMask s), s'))"

definition SetProcessAffinityMask ::
  "'w word host \<Rightarrow> 'w word \<Rightarrow> 'w word world \<Rightarrow> exn option \<times> 'w word world" where
  "SetProcessAffinityMask h dwMask s =
     (let s' = s\<lparr>os_calls := os_calls s @ [SetProcessAffinityMask_call dwMask]\<rparr> in
      case SetProcessAffinityMask_error h dwMask of
        Some m \<Rightarrow> (Some (ResultException m), s')
      | None \<Rightarrow> (None, s'\<lparr>processAffinityMask := dwMask\<rparr>))"

definition SetPriorityClass ::
  "'w word host \<Rightarrow> DWORD \<Rightarrow> 'w word world \<Rightarrow> exn option \<times> 'w word world" where
  "SetPriorityClass h cls s =
     (let s' = s\<lparr>os_calls := os_calls s @ [SetPriorityClass_call cls]\<rparr> in
      case SetPriorityClass_error h cls of
        Some m \<Rightarrow> (Some (ResultException m), s')
      | None \<Rightarrow> (None, s'\<lparr>priorityClass := cls\<rparr>))"

section \<open>The plugin\<close>

text \<open>
  \<open>value & -value\<close> on \<open>DWORD_PTR\<close>; the negation is the two's complement one, as the
  source's comment says.
\<close>

definition GetLowestSetBitMask :: "'w::len word \<Rightarrow> 'w word" where
  "GetLowestSetBitMask v = v AND (- v)"

text \<open>The body of the \<open>try\<close> block of \<open>ConfigureForSingleCPU\<close>.\<close>

definition ConfigureForSingleCPU_try ::
  "'w::len word host \<Rightarrow> 'w word world \<Rightarrow> exn option \<times> 'w word world" where
  "ConfigureForSingleCPU_try h s =
     (case GetProcessAffinityMask h s of
        (Inl e, s1) \<Rightarrow> (Some e, s1)
      | (Inr (processMask, systemMask), s1) \<Rightarrow>
          (let firstLogicalProcessor = GetLowestSetBitMask systemMask in
           case SetProcessAffinityMask h firstLogicalProcessor s1 of
             (Some e, s2) \<Rightarrow> (Some e, s2)
           | (None, s2) \<Rightarrow>
               (None, WriteLine Info ''Configured the game to use 1 CPU core.'' s2)))"

definition ConfigureForSingleCPU ::
  "'w::len word host \<Rightarrow> 'w word world \<Rightarrow> exn option \<times> 'w word world" where
  "ConfigureForSingleCPU h s =
     (case ConfigureForSingleCPU_try h s of
        (Some (ResultException m), s1) \<Rightarrow>
          (None, WriteLineFormatted Error
             ''An OS error occurred when configuring the game to use 1 CPU core: %s.'' m s1)
      | r \<Rightarrow> r)"

text \<open>
  The chain of comparisons of \<open>ProcessCPUPriorityValue\<close>: the value of \<open>cpuPriority\<close>
  after it (0 when none was chosen), and the line the chain may log.
\<close>

definition ProcessCPUPriorityValue_select ::
  "string \<Rightarrow> bool \<Rightarrow> 'w word world \<Rightarrow> DWORD \<times> 'w word world" where
  "ProcessCPUPriorityValue_select priority isCPUPriorityArgument s =
     (if EqualsIgnoreCase priority ''High'' then (HIGH_PRIORITY_CLASS, s)
      else if EqualsIgnoreCase priority ''AboveNormal'' then (ABOVE_NORMAL_PRIORITY_CLASS, s)
      else if EqualsIgnoreCase priority ''Normal'' then (NORMAL_PRIORITY_CLASS, s)
      else if EqualsIgnoreCase priority ''BelowNormal'' then (BELOW_NORMAL_PRIORITY_CLASS, s)
      else if EqualsIgnoreCase priority ''Idle'' then (IDLE_PRIORITY_CLASS, s)
      else if EqualsIgnoreCase priority ''Low'' then
        (if isCPUPriorityArgument
         then (0, WriteLine Info ''SC4 set its CPU priority to Low.'' s)
         else (IDLE_PRIORITY_CLASS, s))
      else (0, WriteLineFormatted Error ''Unsupported CPU priority value: %s'' priority s))"

definition ProcessCPUPriorityValue ::
  "'w word host \<Rightarrow> string \<Rightarrow> bool \<Rightarrow> 'w word world \<Rightarrow> exn option \<times> 'w word world" where
  "ProcessCPUPriorityValue h priority isCPUPriorityArgument s =
     (case ProcessCPUPriorityValue_select priority isCPUPriorityArgument s of
        (cpuPriority, s1) \<Rightarrow>
          if cpuPriority \<noteq> 0 then
            (case SetPriorityClass h cpuPriority s1 of
               (Some (ResultException m), s2) \<Rightarrow>
                 (None, WriteLineFormatted Error
                    ''An OS error occurred when setting the CPU priority: %s.'' m s2)
             | (Some e, s2) \<Rightarrow> (Some e, s2)
             | (None, s2) \<Rightarrow>
                 (None, WriteLineFormatted Info
                    ''Set the game's CPU priority to %s.'' priority s2))
          else (None, s1))"

text \<open>
  The body of the \<open>try\<close> block of \<open>SetCPUPriorityFromConfigFile\<close>. The message of
  \<open>ptree_bad_path\<close> is the one Boost.PropertyTree builds for a path with no node.
\<close>

definition SetCPUPriorityFromConfigFile_try ::
  "'w word host \<Rightarrow> 'w word world \<Rightarrow> exn option \<times> 'w word world" where
  "SetCPUPriorityFromConfigFile_try h s =
     (case configFile h of
        CannotOpen \<Rightarrow> (Some (runtime_error ''Failed to open the settings file.''), s)
      | ParseError m \<Rightarrow> (Some (ini_parser_error m), s)
      | Parsed tree \<Rightarrow>
          (case tree ''CPUOptions.Priority'' of
             None \<Rightarrow> (Some (ptree_bad_path ''No such node (CPUOptions.Priority)''), s)
           | Some cpuPriority \<Rightarrow> ProcessCPUPriorityValue h cpuPriority False s))"

definition SetCPUPriorityFromConfigFile ::
  "'w word host \<Rightarrow> 'w word world \<Rightarrow> exn option \<times> 'w word world" where
  "SetCPUPriorityFromConfigFile h s =
     (case SetCPUPriorityFromConfigFile_try h s of
        (Some e, s1) \<Rightarrow>
          (None, WriteLineFormatted Error
             ''Error when setting the CPU priority: %s'' (what e) s1)
      | (None, s1) \<Rightarrow> (None, s1))"

text \<open>
  \<open>OnStart\<close>, statement by statement: the \<open>if\<close> on the switch \<open>CPUCount\<close>, the
  \<open>if\<close> on the switch \<open>CPUPriority\<close> (where \<open>value.ToChar()\<close> reaches
  \<open>ProcessCPUPriorityValue\<close> as a \<open>const char*\<close>), and \<open>return true\<close>. The result of
  \<open>OnStart\<close> is the value returned, or the exception that leaves the function.
\<close>

definition OnStart_CPUCount ::
  "'w::len word host \<Rightarrow> 'w word world \<Rightarrow> exn option \<times> 'w word world" where
  "OnStart_CPUCount h s =
     (case switches h ''CPUCount'' of
        Some value \<Rightarrow>
          (None, WriteLineFormatted Info
             ''Skipped forcing the game to a single CPU because the command line contains -CPUCount:%s.''
             value s)
      | None \<Rightarrow> ConfigureForSingleCPU h s)"

definition OnStart_CPUPriority ::
  "'w word host \<Rightarrow> 'w word world \<Rightarrow> exn option \<times> 'w word world" where
  "OnStart_CPUPriority h s =
     (case switches h ''CPUPriority'' of
        Some value \<Rightarrow> ProcessCPUPriorityValue h (c_str value) True s
      | None \<Rightarrow> SetCPUPriorityFromConfigFile h s)"

definition OnStart ::
  "'w::len word host \<Rightarrow> 'w word world \<Rightarrow> (exn + bool) \<times> 'w word world" where
  "OnStart h s =
     (case OnStart_CPUCount h s of
        (Some e, s1) \<Rightarrow> (Inl e, s1)
      | (None, s1) \<Rightarrow>
          (case OnStart_CPUPriority h s1 of
             (Some e, s2) \<Rightarrow> (Inl e, s2)
           | (None, s2) \<Rightarrow> (Inr True, s2)))"

section \<open>Notions of the specification\<close>

text \<open>
  Two characters are the same up to letter case when they are equal, or one is an
  upper-case letter A..Z (65..90) and the other the lower-case letter 32 above it. A
  case variant of a string replaces characters by such counterparts.
\<close>

definition same_up_to_case :: "char \<Rightarrow> char \<Rightarrow> bool" where
  "same_up_to_case c d =
     (c = d
      \<or> (65 \<le> (of_char c :: nat) \<and> (of_char c :: nat) \<le> 90
           \<and> (of_char d :: nat) = of_char c + 32)
      \<or> (65 \<le> (of_char d :: nat) \<and> (of_char d :: nat) \<le> 90
           \<and> (of_char c :: nat) = of_char d + 32))"

definition case_variant :: "string \<Rightarrow> string \<Rightarrow> bool" where
  "case_variant s s' = list_all2 same_up_to_case s s'"

text \<open>The six priority names, and the strings that match one of them in some letter case.\<close>

definition priority_names :: "string list" where
  "priority_names = [''High'', ''AboveNormal'', ''Normal'', ''BelowNormal'', ''Idle'', ''Low'']"

definition recognized :: "string \<Rightarrow> bool" where
  "recognized priority = list_ex (case_variant priority) priority_names"

text \<open>The calls that set the priority class of the process.\<close>

fun is_SetPriorityClass_call :: "'m os_call \<Rightarrow> bool" where
  "is_SetPriorityClass_call (SetPriorityClass_call c) = True"
| "is_SetPriorityClass_call _ = False"

subsection \<open>A concrete start-up\<close>

text \<open>
  A 32-bit process on a machine whose logical processors 1 and 3 are available, no
  command-line switch, a configuration file with \<open>Priority=AboveNormal\<close> in the
  section \<open>CPUOptions\<close>, and an operating system that accepts every call.
\<close>

definition example_world :: "32 word world" where
  "example_world =
     \<lparr>processAffinityMask = 0xA, systemAffinityMask = 0xA,
      priorityClass = NORMAL_PRIORITY_CLASS, os_calls = [], log = []\<rparr>"

definition example_host :: "32 word host" where
  "example_host =
     \<lparr>switches = (\<lambda>name. None),
      configFile = Parsed [''CPUOptions.Priority'' \<mapsto> ''AboveNormal''],
      GetProcessAffinityMask_error = None,
      SetProcessAffinityMask_error = (\<lambda>m. None),
      SetPriorityClass_error = (\<lambda>c. None)\<rparr>"

section \<open>The lowest set bit\<close>

lemma odd_and_uminus:
  fixes u :: "'w::len word"
  assumes "bit u 0"
  shows "u AND - u = 1"
proof -
  have "u AND NOT (u - 1) = 1"
    using assms
    by (metis (no_types, lifting) ab_group_add_class.ab_diff_conv_add_uminus
        and.left_idem bit.disj_conj_distrib2 bit.double_compl bit_1_iff
        decr_eq_not_minus diff_self disjunctive_diff eq_diff_eq word_and_max
        word_or_not word_plus_and_or)
  then show ?thesis by (simp add: minus_eq_not_minus_1)
qed

lemma lowest_set_bit:
  fixes v :: "'w::len word"
  assumes "v \<noteq> 0"
  shows "\<exists>n<LENGTH('w). bit v n \<and> (\<forall>i<n. \<not> bit v i) \<and> GetLowestSetBitMask v = 2 ^ n"
proof -
  from assms obtain k where k: "bit v k" by (auto simp: bit_eq_iff)
  define n where "n = (LEAST k. bit v k)"
  have bn: "bit v n" unfolding n_def using k by (rule LeastI)
  have low: "\<not> bit v i" if "i < n" for i
    using that not_less_Least unfolding n_def by blast
  have nlen: "n < LENGTH('w)" using bn by (rule bit_imp_le_length)
  have "take_bit n v = 0"
    by (rule bit_eqI) (auto simp: bit_take_bit_iff low)
  then have v: "v = push_bit n (drop_bit n v)"
    using bits_ident [of n v] by simp
  have odd: "bit (drop_bit n v) 0" using bn by (simp add: bit_drop_bit_eq)
  have "v AND - v = push_bit n (drop_bit n v) AND - push_bit n (drop_bit n v)"
    using v by simp
  also have "\<dots> = push_bit n (drop_bit n v AND - drop_bit n v)"
    by (simp add: push_bit_minus)
  also have "\<dots> = push_bit n 1" using odd by (simp add: odd_and_uminus)
  also have "\<dots> = 2 ^ n" by simp
  finally show ?thesis using bn low nlen by (auto simp: GetLowestSetBitMask_def)
qed

section \<open>Comparing without regard to case\<close>

lemma of_char_toupper:
  "(of_char (toupper c) :: nat) =
     (if 97 \<le> (of_char c :: nat) \<and> (of_char c :: nat) \<le> 122 then of_char c - 32 else of_char c)"
  by (auto simp: toupper_def)

lemma toupper_eq_iff: "toupper c = toupper d \<longleftrightarrow> same_up_to_case c d"
proof -
  have "toupper c = toupper d \<longleftrightarrow> (of_char (toupper c) :: nat) = of_char (toupper d)"
    by simp
  also have "\<dots> \<longleftrightarrow> same_up_to_case c d"
    unfolding of_char_toupper same_up_to_case_def
    using of_char_eq_iff [of c d, where ?'a = nat]
    by (auto simp del: of_char_eq_iff)
  finally show ?thesis .
qed

lemma iequals_iff: "iequals a b \<longleftrightarrow> list_all2 (\<lambda>x y. toupper x = toupper y) a b"
  by (induction a b rule: iequals.induct) simp_all

lemma EqualsIgnoreCase_iff: "EqualsIgnoreCase a b \<longleftrightarrow> case_variant a b"
  by (auto simp: EqualsIgnoreCase_def case_variant_def iequals_iff toupper_eq_iff
      dest: list_all2_lengthD)

lemma case_variant_map: "case_variant a b \<longleftrightarrow> map toupper a = map toupper b"
  unfolding case_variant_def toupper_eq_iff [symmetric]
  by (induction a arbitrary: b) (auto simp: list_all2_Cons1)

lemma EqualsIgnoreCase_case_variant:
  "case_variant s s' \<Longrightarrow> EqualsIgnoreCase s n = EqualsIgnoreCase s' n"
  by (simp add: EqualsIgnoreCase_iff case_variant_map)

lemma c_str_no_zero: "CHR 0x00 \<notin> set s \<Longrightarrow> c_str s = s"
  by (auto simp: c_str_def)

section \<open>What each function calls, changes and throws\<close>

lemma priority_classes_nonzero:
  "HIGH_PRIORITY_CLASS \<noteq> 0" "ABOVE_NORMAL_PRIORITY_CLASS \<noteq> 0" "NORMAL_PRIORITY_CLASS \<noteq> 0"
  "BELOW_NORMAL_PRIORITY_CLASS \<noteq> 0" "IDLE_PRIORITY_CLASS \<noteq> 0"
  by (simp_all add: HIGH_PRIORITY_CLASS_def ABOVE_NORMAL_PRIORITY_CLASS_def
      NORMAL_PRIORITY_CLASS_def BELOW_NORMAL_PRIORITY_CLASS_def IDLE_PRIORITY_CLASS_def)

lemma select_fields [simp]:
  "os_calls (snd (ProcessCPUPriorityValue_select p b s)) = os_calls s"
  "priorityClass (snd (ProcessCPUPriorityValue_select p b s)) = priorityClass s"
  "processAffinityMask (snd (ProcessCPUPriorityValue_select p b s)) = processAffinityMask s"
  "systemAffinityMask (snd (ProcessCPUPriorityValue_select p b s)) = systemAffinityMask s"
  by (simp_all add: ProcessCPUPriorityValue_select_def WriteLine_def WriteLineFormatted_def)

lemma PCPV_fst: "fst (ProcessCPUPriorityValue h p b s) = None"
  by (simp add: ProcessCPUPriorityValue_def SetPriorityClass_def Let_def
      split: prod.splits option.splits exn.splits)

lemma PCPV_os_calls:
  "os_calls (snd (ProcessCPUPriorityValue h p b s)) =
     os_calls s @ (if fst (ProcessCPUPriorityValue_select p b s) = 0 then []
                   else [SetPriorityClass_call (fst (ProcessCPUPriorityValue_select p b s))])"
proof -
  obtain c s1 where sel: "ProcessCPUPriorityValue_select p b s = (c, s1)"
    by (cases "ProcessCPUPriorityValue_select p b s")
  have "os_calls s1 = os_calls s" using select_fields(1) [of p b s] sel by simp
  then show ?thesis
    by (simp add: ProcessCPUPriorityValue_def sel SetPriorityClass_def Let_def
        WriteLine_def WriteLineFormatted_def split: option.splits)
qed

lemma PCPV_priorityClass:
  "priorityClass (snd (ProcessCPUPriorityValue h p b s)) =
     (let c = fst (ProcessCPUPriorityValue_select p b s) in
      if c \<noteq> 0 \<and> SetPriorityClass_error h c = None then c else priorityClass s)"
proof -
  obtain c s1 where sel: "ProcessCPUPriorityValue_select p b s = (c, s1)"
    by (cases "ProcessCPUPriorityValue_select p b s")
  have "priorityClass s1 = priorityClass s" using select_fields(2) [of p b s] sel by simp
  then show ?thesis
    by (simp add: ProcessCPUPriorityValue_def sel SetPriorityClass_def Let_def
        WriteLine_def WriteLineFormatted_def split: option.splits)
qed

lemma PCPV_affinity:
  "processAffinityMask (snd (ProcessCPUPriorityValue h p b s)) = processAffinityMask s"
  "systemAffinityMask (snd (ProcessCPUPriorityValue h p b s)) = systemAffinityMask s"
proof -
  obtain c s1 where sel: "ProcessCPUPriorityValue_select p b s = (c, s1)"
    by (cases "ProcessCPUPriorityValue_select p b s")
  have "processAffinityMask s1 = processAffinityMask s" "systemAffinityMask s1 = systemAffinityMask s"
    using select_fields(3,4) [of p b s] sel by simp_all
  then show "processAffinityMask (snd (ProcessCPUPriorityValue h p b s)) = processAffinityMask s"
    "systemAffinityMask (snd (ProcessCPUPriorityValue h p b s)) = systemAffinityMask s"
    by (simp_all add: ProcessCPUPriorityValue_def sel SetPriorityClass_def Let_def
        WriteLine_def WriteLineFormatted_def split: option.splits)
qed

lemma CFS_fst: "fst (ConfigureForSingleCPU h s) = None"
  by (simp add: ConfigureForSingleCPU_def ConfigureForSingleCPU_try_def
      GetProcessAffinityMask_def SetProcessAffinityMask_def Let_def
      split: prod.splits option.splits exn.splits sum.splits)

lemma CFS_os_calls:
  "os_calls (snd (ConfigureForSingleCPU h s)) =
     os_calls s @ GetProcessAffinityMask_call #
       (if GetProcessAffinityMask_error h = None
        then [SetProcessAffinityMask_call (GetLowestSetBitMask (systemAffinityMask s))] else [])"
  by (simp add: ConfigureForSingleCPU_def ConfigureForSingleCPU_try_def
      GetProcessAffinityMask_def SetProcessAffinityMask_def Let_def
      WriteLine_def WriteLineFormatted_def
      split: option.splits)

lemma CFS_success:
  assumes "GetProcessAffinityMask_error h = None"
    and "SetProcessAffinityMask_error h (GetLowestSetBitMask (systemAffinityMask s)) = None"
  shows "ConfigureForSingleCPU h s =
     (None, s\<lparr>processAffinityMask := GetLowestSetBitMask (systemAffinityMask s),
              os_calls := os_calls s @ [GetProcessAffinityMask_call,
                 SetProcessAffinityMask_call (GetLowestSetBitMask (systemAffinityMask s))],
              log := log s @ [(Info, ''Configured the game to use 1 CPU core.'')]\<rparr>)"
  using assms
  by (simp add: ConfigureForSingleCPU_def ConfigureForSingleCPU_try_def
      GetProcessAffinityMask_def SetProcessAffinityMask_def Let_def WriteLine_def)

lemma CFS_priorityClass:
  "priorityClass (snd (ConfigureForSingleCPU h s)) = priorityClass s"
  by (simp add: ConfigureForSingleCPU_def ConfigureForSingleCPU_try_def
      GetProcessAffinityMask_def SetProcessAffinityMask_def Let_def
      WriteLine_def WriteLineFormatted_def
      split: option.splits)

lemma SCFF_fst: "fst (SetCPUPriorityFromConfigFile h s) = None"
  by (simp add: SetCPUPriorityFromConfigFile_def split: prod.splits option.splits)

lemma no_throw [simp]:
  "ConfigureForSingleCPU h s \<noteq> (Some e, s')"
  "ProcessCPUPriorityValue h p b s \<noteq> (Some e, s')"
  "SetCPUPriorityFromConfigFile h s \<noteq> (Some e, s')"
  using CFS_fst [of h s] PCPV_fst [of h p b s] SCFF_fst [of h s] by auto

lemma OnStart_CPUCount_fst: "fst (OnStart_CPUCount h s) = None"
  by (simp add: OnStart_CPUCount_def CFS_fst split: option.splits)

lemma OnStart_CPUPriority_fst: "fst (OnStart_CPUPriority h s) = None"
  by (simp add: OnStart_CPUPriority_def PCPV_fst SCFF_fst split: option.splits)

lemma OnStart_eq:
  "OnStart h s = (Inr True, snd (OnStart_CPUPriority h (snd (OnStart_CPUCount h s))))"
proof -
  obtain s1 where s1: "OnStart_CPUCount h s = (None, s1)"
    using OnStart_CPUCount_fst [of h s] by (cases "OnStart_CPUCount h s") simp
  obtain s2 where s2: "OnStart_CPUPriority h s1 = (None, s2)"
    using OnStart_CPUPriority_fst [of h s1] by (cases "OnStart_CPUPriority h s1") simp
  show ?thesis by (simp add: OnStart_def s1 s2)
qed

lemma OnStart_fst: "fst (OnStart h s) = Inr True"
  by (simp add: OnStart_eq)

lemma GetLowestSetBitMask_submask: "GetLowestSetBitMask v AND v = GetLowestSetBitMask v"
  by (simp add: GetLowestSetBitMask_def ac_simps)

section \<open>The log lines and the runs without failure\<close>

lemma sprintf_simps:
  "sprintf ''Unsupported CPU priority value: %s'' a = ''Unsupported CPU priority value: '' @ c_str a"
  "sprintf ''Set the game's CPU priority to %s.'' a = ''Set the game's CPU priority to '' @ c_str a @ ''.''"
  "sprintf ''An OS error occurred when setting the CPU priority: %s.'' a =
     ''An OS error occurred when setting the CPU priority: '' @ c_str a @ ''.''"
  "sprintf ''An OS error occurred when configuring the game to use 1 CPU core: %s.'' a =
     ''An OS error occurred when configuring the game to use 1 CPU core: '' @ c_str a @ ''.''"
  "sprintf ''Error when setting the CPU priority: %s'' a =
     ''Error when setting the CPU priority: '' @ c_str a"
  "sprintf ''Skipped forcing the game to a single CPU because the command line contains -CPUCount:%s.'' a =
     ''Skipped forcing the game to a single CPU because the command line contains -CPUCount:'' @ c_str a @ ''.''"
  by simp_all

lemma Low_is_not_another_name:
  "\<not> EqualsIgnoreCase ''Low'' ''High''" "\<not> EqualsIgnoreCase ''Low'' ''AboveNormal''"
  "\<not> EqualsIgnoreCase ''Low'' ''Normal''" "\<not> EqualsIgnoreCase ''Low'' ''BelowNormal''"
  "\<not> EqualsIgnoreCase ''Low'' ''Idle''" "EqualsIgnoreCase ''Low'' ''Low''"
  by (simp_all add: EqualsIgnoreCase_def)

lemma select_Low:
  "ProcessCPUPriorityValue_select ''Low'' True s =
     (0, WriteLine Info ''SC4 set its CPU priority to Low.'' s)"
  "ProcessCPUPriorityValue_select ''Low'' False s = (IDLE_PRIORITY_CLASS, s)"
  by (simp_all add: ProcessCPUPriorityValue_select_def Low_is_not_another_name)

lemma PCPV_success:
  assumes "ProcessCPUPriorityValue_select p b s = (c, s)" and "c \<noteq> 0"
    and "SetPriorityClass_error h c = None"
  shows "ProcessCPUPriorityValue h p b s =
     (None, s\<lparr>priorityClass := c, os_calls := os_calls s @ [SetPriorityClass_call c],
              log := log s @ [(Info, ''Set the game's CPU priority to '' @ c_str p @ ''.'')]\<rparr>)"
  using assms
  by (simp add: ProcessCPUPriorityValue_def SetPriorityClass_def WriteLineFormatted_def
      WriteLine_def sprintf_simps Let_def)

lemma SCFF_Parsed_Some:
  assumes "configFile h = Parsed tree" and "tree ''CPUOptions.Priority'' = Some p"
  shows "SetCPUPriorityFromConfigFile h s = ProcessCPUPriorityValue h p False s"
proof -
  obtain s1 where s1: "ProcessCPUPriorityValue h p False s = (None, s1)"
    using PCPV_fst [of h p False s] by (cases "ProcessCPUPriorityValue h p False s") simp
  show ?thesis
    by (simp add: SetCPUPriorityFromConfigFile_def SetCPUPriorityFromConfigFile_try_def assms s1)
qed

lemma SCFF_no_value:
  "configFile h = CannotOpen \<Longrightarrow> SetCPUPriorityFromConfigFile h s =
     (None, s\<lparr>log := log s @
        [(Error, ''Error when setting the CPU priority: Failed to open the settings file.'')]\<rparr>)"
  "configFile h = ParseError m \<Longrightarrow> SetCPUPriorityFromConfigFile h s =
     (None, s\<lparr>log := log s @
        [(Error, ''Error when setting the CPU priority: '' @ c_str m)]\<rparr>)"
  "configFile h = Parsed tree \<Longrightarrow> tree ''CPUOptions.Priority'' = None \<Longrightarrow>
   SetCPUPriorityFromConfigFile h s =
     (None, s\<lparr>log := log s @
        [(Error, ''Error when setting the CPU priority: No such node (CPUOptions.Priority)'')]\<rparr>)"
  by (simp_all add: SetCPUPriorityFromConfigFile_def SetCPUPriorityFromConfigFile_try_def
      WriteLineFormatted_def WriteLine_def sprintf_simps c_str_def)

lemma PCPV_calls:
  "\<exists>cs. os_calls (snd (ProcessCPUPriorityValue h p b s)) = os_calls s @ cs
        \<and> length cs \<le> 1 \<and> list_all is_SetPriorityClass_call cs"
  by (simp add: PCPV_os_calls)

lemma SCFF_calls:
  "\<exists>cs. os_calls (snd (SetCPUPriorityFromConfigFile h s)) = os_calls s @ cs
        \<and> length cs \<le> 1 \<and> list_all is_SetPriorityClass_call cs"
proof (cases "configFile h")
  case CannotOpen
  then show ?thesis by (simp add: SCFF_no_value)
next
  case (ParseError m)
  then show ?thesis by (simp add: SCFF_no_value)
next
  case (Parsed tree)
  show ?thesis
  proof (cases "tree ''CPUOptions.Priority''")
    case None
    with Parsed show ?thesis by (simp add: SCFF_no_value)
  next
    case (Some p)
    with Parsed show ?thesis
      using PCPV_calls [of h p False s] by (simp add: SCFF_Parsed_Some)
  qed
qed

lemma OnStart_CPUPriority_calls:
  "\<exists>cs. os_calls (snd (OnStart_CPUPriority h s)) = os_calls s @ cs
        \<and> length cs \<le> 1 \<and> list_all is_SetPriorityClass_call cs"
proof (cases "switches h ''CPUPriority''")
  case None
  then show ?thesis using SCFF_calls [of h s] by (simp add: OnStart_CPUPriority_def)
next
  case (Some v)
  then show ?thesis
    using PCPV_calls [of h "c_str v" True s] by (simp add: OnStart_CPUPriority_def)
qed

lemma OnStart_CPUCount_calls:
  "\<exists>cs. os_calls (snd (OnStart_CPUCount h s)) = os_calls s @ cs
        \<and> filter is_SetPriorityClass_call cs = []"
  by (simp add: OnStart_CPUCount_def CFS_os_calls WriteLineFormatted_def WriteLine_def
      split: option.splits)

lemma select_AboveNormal:
  "ProcessCPUPriorityValue_select ''AboveNormal'' b s = (ABOVE_NORMAL_PRIORITY_CLASS, s)"
  by (simp add: ProcessCPUPriorityValue_select_def EqualsIgnoreCase_def)

lemma example_run:
  "OnStart example_host example_world =
     (Inr True,
      \<lparr>processAffinityMask = 2, systemAffinityMask = 0xA,
       priorityClass = ABOVE_NORMAL_PRIORITY_CLASS,
       os_calls = [GetProcessAffinityMask_call, SetProcessAffinityMask_call 2,
                   SetPriorityClass_call ABOVE_NORMAL_PRIORITY_CLASS],
       log = [(Info, ''Configured the game to use 1 CPU core.''),
              (Info, ''Set the game's CPU priority to AboveNormal.'')]\<rparr>)"
proof -
  have low: "GetLowestSetBitMask (systemAffinityMask example_world) = 2"
    by (simp add: example_world_def GetLowestSetBitMask_def)
  have a: "OnStart_CPUCount example_host example_world =
     (None, example_world\<lparr>processAffinityMask := 2,
        os_calls := [GetProcessAffinityMask_call, SetProcessAffinityMask_call 2],
        log := [(Info, ''Configured the game to use 1 CPU core.'')]\<rparr>)"
    using CFS_success [of example_host example_world] low
    by (simp add: OnStart_CPUCount_def example_host_def) (simp add: example_world_def)
  have b: "OnStart_CPUPriority example_host s =
     (None, s\<lparr>priorityClass := ABOVE_NORMAL_PRIORITY_CLASS,
        os_calls := os_calls s @ [SetPriorityClass_call ABOVE_NORMAL_PRIORITY_CLASS],
        log := log s @ [(Info, ''Set the game's CPU priority to AboveNormal.'')]\<rparr>)" for s
  proof -
    have "OnStart_CPUPriority example_host s =
        ProcessCPUPriorityValue example_host ''AboveNormal'' False s"
      using SCFF_Parsed_Some [of example_host "[''CPUOptions.Priority'' \<mapsto> ''AboveNormal'']"
          "''AboveNormal''" s]
      by (simp add: OnStart_CPUPriority_def example_host_def)
    also have "\<dots> = (None, s\<lparr>priorityClass := ABOVE_NORMAL_PRIORITY_CLASS,
        os_calls := os_calls s @ [SetPriorityClass_call ABOVE_NORMAL_PRIORITY_CLASS],
        log := log s @ [(Info, ''Set the game's CPU priority to AboveNormal.'')]\<rparr>)"
      using PCPV_success [OF select_AboveNormal priority_classes_nonzero(2),
          of example_host False s]
      by (simp add: example_host_def c_str_def)
    finally show ?thesis .
  qed
  show ?thesis
    by (simp add: OnStart_eq a b) (simp add: example_world_def)
qed

section \<open>Names, hosts and logs that make no difference\<close>

lemma select_fst_case_variant:
  assumes "case_variant p p'"
  shows "fst (ProcessCPUPriorityValue_select p b s) = fst (ProcessCPUPriorityValue_select p' b s')"
  by (simp add: ProcessCPUPriorityValue_select_def EqualsIgnoreCase_case_variant [OF assms])

lemma High_variants:
  "EqualsIgnoreCase ''high'' ''High''" "EqualsIgnoreCase ''HIGH'' ''High''"
  "EqualsIgnoreCase ''High'' ''High''"
  by code_simp+

lemma not_recognized:
  assumes "\<not> recognized p"
  shows "\<not> EqualsIgnoreCase p ''High''" "\<not> EqualsIgnoreCase p ''AboveNormal''"
    "\<not> EqualsIgnoreCase p ''Normal''" "\<not> EqualsIgnoreCase p ''BelowNormal''"
    "\<not> EqualsIgnoreCase p ''Idle''" "\<not> EqualsIgnoreCase p ''Low''"
  using assms by (simp_all add: recognized_def priority_names_def EqualsIgnoreCase_iff)

lemma PCPV_host_cong:
  assumes "SetPriorityClass_error h' = SetPriorityClass_error h"
  shows "ProcessCPUPriorityValue h' p b s = ProcessCPUPriorityValue h p b s"
proof -
  have eq: "SetPriorityClass h' = SetPriorityClass h"
    by (intro ext) (simp add: SetPriorityClass_def assms)
  show ?thesis unfolding ProcessCPUPriorityValue_def eq ..
qed

lemma OnStart_CPUPriority_host_cong:
  assumes "SetPriorityClass_error h' = SetPriorityClass_error h"
    and "configFile h' = configFile h"
    and "switches h' ''CPUPriority'' = switches h ''CPUPriority''"
  shows "OnStart_CPUPriority h' s = OnStart_CPUPriority h s"
proof -
  have p: "ProcessCPUPriorityValue h' = ProcessCPUPriorityValue h"
    by (intro ext) (rule PCPV_host_cong [OF assms(1)])
  have q: "SetCPUPriorityFromConfigFile_try h' = SetCPUPriorityFromConfigFile_try h"
    by (intro ext)
      (simp add: SetCPUPriorityFromConfigFile_try_def p assms(2)
        split: config_file.splits option.splits)
  have r: "SetCPUPriorityFromConfigFile h' = SetCPUPriorityFromConfigFile h"
    by (intro ext) (simp add: SetCPUPriorityFromConfigFile_def q)
  show ?thesis
    unfolding OnStart_CPUPriority_def p r assms(3) ..
qed

lemma world_eq_upto_log:
  fixes t u :: "'m world"
  assumes "t\<lparr>log := []\<rparr> = u\<lparr>log := []\<rparr>"
  shows "t = u\<lparr>log := log t\<rparr>"
  using assms by (cases t, cases u) simp

lemma select_log_irrelevant:
  "fst (ProcessCPUPriorityValue_select p b (s\<lparr>log := l\<rparr>)) = fst (ProcessCPUPriorityValue_select p b s)"
  "(snd (ProcessCPUPriorityValue_select p b (s\<lparr>log := l\<rparr>)))\<lparr>log := []\<rparr> =
   (snd (ProcessCPUPriorityValue_select p b s))\<lparr>log := []\<rparr>"
  by (simp_all add: ProcessCPUPriorityValue_select_def WriteLine_def WriteLineFormatted_def)

lemma PCPV_log_irrelevant:
  "(snd (ProcessCPUPriorityValue h p b (s\<lparr>log := l\<rparr>)))\<lparr>log := []\<rparr> =
   (snd (ProcessCPUPriorityValue h p b s))\<lparr>log := []\<rparr>"
proof -
  obtain c s1 where a: "ProcessCPUPriorityValue_select p b s = (c, s1)"
    by (cases "ProcessCPUPriorityValue_select p b s")
  obtain c' s1' where b: "ProcessCPUPriorityValue_select p b (s\<lparr>log := l\<rparr>) = (c', s1')"
    by (cases "ProcessCPUPriorityValue_select p b (s\<lparr>log := l\<rparr>)")
  from select_log_irrelevant [where p = p and b = b and s = s and l = l] a b
  have c: "c' = c" and s: "s1'\<lparr>log := []\<rparr> = s1\<lparr>log := []\<rparr>" by simp_all
  from world_eq_upto_log [OF s] obtain l' where l': "s1' = s1\<lparr>log := l'\<rparr>" ..
  show ?thesis
    by (simp add: ProcessCPUPriorityValue_def a b c l' SetPriorityClass_def Let_def
        WriteLine_def WriteLineFormatted_def split: option.splits)
qed

lemma OnStart_CPUPriority_log_irrelevant:
  "(snd (OnStart_CPUPriority h (s\<lparr>log := l\<rparr>)))\<lparr>log := []\<rparr> =
   (snd (OnStart_CPUPriority h s))\<lparr>log := []\<rparr>"
proof (cases "switches h ''CPUPriority''")
  case (Some v)
  then show ?thesis by (simp add: OnStart_CPUPriority_def PCPV_log_irrelevant)
next
  case None
  show ?thesis
  proof (cases "configFile h")
    case CannotOpen
    with None show ?thesis by (simp add: OnStart_CPUPriority_def SCFF_no_value)
  next
    case (ParseError m)
    with None show ?thesis by (simp add: OnStart_CPUPriority_def SCFF_no_value)
  next
    case (Parsed tree)
    show ?thesis
    proof (cases "tree ''CPUOptions.Priority''")
      case None
      with Parsed \<open>switches h ''CPUPriority'' = None\<close> show ?thesis
        by (simp add: OnStart_CPUPriority_def SCFF_no_value)
    next
      case (Some p)
      with Parsed \<open>switches h ''CPUPriority'' = None\<close> show ?thesis
        by (simp add: OnStart_CPUPriority_def SCFF_Parsed_Some PCPV_log_irrelevant)
    qed
  qed
qed

lemma OnStart_CPUPriority_affinity:
  "processAffinityMask (snd (OnStart_CPUPriority h s)) = processAffinityMask s"
proof (cases "switches h ''CPUPriority''")
  case (Some v)
  then show ?thesis by (simp add: OnStart_CPUPriority_def PCPV_affinity)
next
  case None
  show ?thesis
  proof (cases "configFile h")
    case CannotOpen
    with None show ?thesis by (simp add: OnStart_CPUPriority_def SCFF_no_value)
  next
    case (ParseError m)
    with None show ?thesis by (simp add: OnStart_CPUPriority_def SCFF_no_value)
  next
    case (Parsed tree)
    show ?thesis
    proof (cases "tree ''CPUOptions.Priority''")
      case None
      with Parsed \<open>switches h ''CPUPriority'' = None\<close> show ?thesis
        by (simp add: OnStart_CPUPriority_def SCFF_no_value)
    next
      case (Some p)
      with Parsed \<open>switches h ''CPUPriority'' = None\<close> show ?thesis
        by (simp add: OnStart_CPUPriority_def SCFF_Parsed_Some PCPV_affinity)
    qed
  qed
qed

lemma OnStart_CPUCount_present:
  assumes "switches h ''CPUCount'' = Some v"
  shows "OnStart_CPUCount h s =
     (None, s\<lparr>log := log s @
        [(Info, ''Skipped forcing the game to a single CPU because the command line contains -CPUCount:''
           @ c_str v @ ''.'')]\<rparr>)"
  using assms
  by (simp add: OnStart_CPUCount_def WriteLineFormatted_def WriteLine_def sprintf_simps)

section \<open>The claims\<close>

subsection \<open>Affinity\<close>

text \<open>
  Claim C1. Let the operating system report the system affinity mask \<open>M\<close>, with at least
  one bit set. Then \<open>GetLowestSetBitMask M\<close> is \<open>2 ^ n\<close> for the least \<open>n\<close> whose bit
  is set in \<open>M\<close>: a single bit, a submask of \<open>M\<close>. \<open>ConfigureForSingleCPU\<close> makes
  two calls, the query and \<open>SetProcessAffinityMask\<close> with exactly that mask, and where
  the operating system accepts the call the affinity mask of the process is that mask.
\<close>

theorem ConfigureForSingleCPU_selects_lowest_set_bit:
  fixes h :: "'w::len word host" and s :: "'w word world"
  assumes "GetProcessAffinityMask_error h = None" and "systemAffinityMask s \<noteq> 0"
  shows "(\<exists>n<LENGTH('w).
            bit (systemAffinityMask s) n \<and> (\<forall>i<n. \<not> bit (systemAffinityMask s) i)
          \<and> GetLowestSetBitMask (systemAffinityMask s) = 2 ^ n)
       \<and> GetLowestSetBitMask (systemAffinityMask s) AND systemAffinityMask s =
           GetLowestSetBitMask (systemAffinityMask s)
       \<and> os_calls (snd (ConfigureForSingleCPU h s)) =
           os_calls s @ [GetProcessAffinityMask_call,
             SetProcessAffinityMask_call (GetLowestSetBitMask (systemAffinityMask s))]
       \<and> (SetProcessAffinityMask_error h (GetLowestSetBitMask (systemAffinityMask s)) = None \<longrightarrow>
            processAffinityMask (snd (ConfigureForSingleCPU h s)) =
              GetLowestSetBitMask (systemAffinityMask s))"
proof (intro conjI impI)
  show "\<exists>n<LENGTH('w).
            bit (systemAffinityMask s) n \<and> (\<forall>i<n. \<not> bit (systemAffinityMask s) i)
          \<and> GetLowestSetBitMask (systemAffinityMask s) = 2 ^ n"
    using assms(2) by (rule lowest_set_bit)
  show "GetLowestSetBitMask (systemAffinityMask s) AND systemAffinityMask s =
           GetLowestSetBitMask (systemAffinityMask s)"
    by (rule GetLowestSetBitMask_submask)
  show "os_calls (snd (ConfigureForSingleCPU h s)) =
           os_calls s @ [GetProcessAffinityMask_call,
             SetProcessAffinityMask_call (GetLowestSetBitMask (systemAffinityMask s))]"
    using assms(1) by (simp add: CFS_os_calls)
  show "processAffinityMask (snd (ConfigureForSingleCPU h s)) =
              GetLowestSetBitMask (systemAffinityMask s)"
    if "SetProcessAffinityMask_error h (GetLowestSetBitMask (systemAffinityMask s)) = None"
    using CFS_success [OF assms(1) that] by simp
qed

text \<open>The system mask \<open>0b1010\<close> of the specification's example gives \<open>0b0010\<close>.\<close>

theorem ConfigureForSingleCPU_selects_lowest_set_bit_witness:
  "GetProcessAffinityMask_error example_host = None
   \<and> systemAffinityMask example_world = 0xA
   \<and> systemAffinityMask example_world \<noteq> 0
   \<and> GetLowestSetBitMask (systemAffinityMask example_world) = 2
   \<and> SetProcessAffinityMask_error example_host 2 = None
   \<and> os_calls (snd (ConfigureForSingleCPU example_host example_world)) =
        [GetProcessAffinityMask_call, SetProcessAffinityMask_call 2]
   \<and> processAffinityMask (snd (ConfigureForSingleCPU example_host example_world)) = 2"
proof -
  have h: "GetProcessAffinityMask_error example_host = None"
    by (simp add: example_host_def)
  have sm: "systemAffinityMask example_world = 0xA" by (simp add: example_world_def)
  have m: "systemAffinityMask example_world \<noteq> 0"
    by (simp add: example_world_def)
  have low: "GetLowestSetBitMask (systemAffinityMask example_world) = 2"
    by (simp add: example_world_def GetLowestSetBitMask_def)
  have ok: "SetProcessAffinityMask_error example_host 2 = None"
    by (simp add: example_host_def)
  have e: "os_calls example_world = []" by (simp add: example_world_def)
  note t = ConfigureForSingleCPU_selects_lowest_set_bit
    [OF h m, THEN conjunct2, THEN conjunct2, unfolded low e]
  from t ok have "os_calls (snd (ConfigureForSingleCPU example_host example_world)) =
        [GetProcessAffinityMask_call, SetProcessAffinityMask_call 2]
     \<and> processAffinityMask (snd (ConfigureForSingleCPU example_host example_world)) = 2"
    by simp
  with h sm m low ok show ?thesis by simp
qed

text \<open>
  Claim C10. \<open>GetLowestSetBitMask v\<close> is \<open>v AND - v\<close>; for every \<open>v\<close> it has at most one
  bit set and is a submask of \<open>v\<close>; it is 0 for 0. So when the system affinity mask is
  reported as 0, \<open>ConfigureForSingleCPU\<close> still calls \<open>SetProcessAffinityMask\<close>, with
  the mask 0.
\<close>

theorem GetLowestSetBitMask_at_most_one_bit:
  fixes v :: "'w::len word" and h :: "'w word host" and s :: "'w word world"
  shows "GetLowestSetBitMask v = v AND - v
       \<and> (\<forall>i j. bit (GetLowestSetBitMask v) i \<and> bit (GetLowestSetBitMask v) j \<longrightarrow> i = j)
       \<and> GetLowestSetBitMask v AND v = GetLowestSetBitMask v
       \<and> GetLowestSetBitMask (0 :: 'w word) = 0
       \<and> (GetProcessAffinityMask_error h = None \<and> systemAffinityMask s = 0 \<longrightarrow>
            os_calls (snd (ConfigureForSingleCPU h s)) =
              os_calls s @ [GetProcessAffinityMask_call, SetProcessAffinityMask_call 0])"
proof -
  have one: "i = j" if "bit (GetLowestSetBitMask v) i" "bit (GetLowestSetBitMask v) j" for i j
  proof (cases "v = 0")
    case True
    with that show ?thesis by (simp add: GetLowestSetBitMask_def)
  next
    case False
    from lowest_set_bit [OF False] obtain n where "GetLowestSetBitMask v = 2 ^ n" by blast
    with that show ?thesis by (simp add: bit_simps)
  qed
  have zero: "GetLowestSetBitMask (0 :: 'w word) = 0"
    by (simp add: GetLowestSetBitMask_def)
  have calls: "os_calls (snd (ConfigureForSingleCPU h s)) =
      os_calls s @ [GetProcessAffinityMask_call, SetProcessAffinityMask_call 0]"
    if "GetProcessAffinityMask_error h = None" "systemAffinityMask s = 0"
    using that zero by (simp add: CFS_os_calls)
  show ?thesis
  proof (intro conjI allI impI)
    show "GetLowestSetBitMask v = v AND - v" by (simp add: GetLowestSetBitMask_def)
    show "i = j" if "bit (GetLowestSetBitMask v) i \<and> bit (GetLowestSetBitMask v) j" for i j
      using that one by blast
    show "GetLowestSetBitMask v AND v = GetLowestSetBitMask v"
      by (rule GetLowestSetBitMask_submask)
    show "GetLowestSetBitMask (0 :: 'w word) = 0" by (rule zero)
    show "os_calls (snd (ConfigureForSingleCPU h s)) =
      os_calls s @ [GetProcessAffinityMask_call, SetProcessAffinityMask_call 0]"
      if "GetProcessAffinityMask_error h = None \<and> systemAffinityMask s = 0"
      using that calls by blast
  qed
qed

theorem GetLowestSetBitMask_at_most_one_bit_witness:
  "GetLowestSetBitMask (0 :: 32 word) = 0
   \<and> GetLowestSetBitMask (12 :: 32 word) = 4
   \<and> bit (GetLowestSetBitMask (12 :: 32 word)) 2
   \<and> GetProcessAffinityMask_error example_host = None
   \<and> systemAffinityMask (example_world\<lparr>systemAffinityMask := 0\<rparr>) = 0
   \<and> os_calls (snd (ConfigureForSingleCPU example_host (example_world\<lparr>systemAffinityMask := 0\<rparr>))) =
        [GetProcessAffinityMask_call, SetProcessAffinityMask_call 0]"
proof -
  have h: "GetProcessAffinityMask_error example_host = None"
    by (simp add: example_host_def)
  have z: "systemAffinityMask (example_world\<lparr>systemAffinityMask := 0\<rparr>) = 0" by simp
  have e: "os_calls (example_world\<lparr>systemAffinityMask := 0\<rparr>) = []"
    by (simp add: example_world_def)
  have f: "GetLowestSetBitMask (12 :: 32 word) = 4" by (simp add: GetLowestSetBitMask_def)
  note t = GetLowestSetBitMask_at_most_one_bit
    [of "12 :: 32 word" example_host "example_world\<lparr>systemAffinityMask := 0\<rparr>",
      THEN conjunct2, THEN conjunct2, THEN conjunct2]
  from t h z e f show ?thesis by simp
qed

subsection \<open>Priority\<close>

text \<open>
  Claim C2. \<open>ProcessCPUPriorityValue\<close> with the string \<open>Low\<close>: from the command line
  it makes no operating-system call and logs one informational line; from the
  configuration file it calls \<open>SetPriorityClass\<close> with the idle priority class, which
  becomes the priority class of the process when the call succeeds.
\<close>

theorem ProcessCPUPriorityValue_Low:
  "ProcessCPUPriorityValue h ''Low'' True s =
     (None, s\<lparr>log := log s @ [(Info, ''SC4 set its CPU priority to Low.'')]\<rparr>)
   \<and> os_calls (snd (ProcessCPUPriorityValue h ''Low'' True s)) = os_calls s
   \<and> os_calls (snd (ProcessCPUPriorityValue h ''Low'' False s)) =
       os_calls s @ [SetPriorityClass_call IDLE_PRIORITY_CLASS]
   \<and> (SetPriorityClass_error h IDLE_PRIORITY_CLASS = None \<longrightarrow>
        ProcessCPUPriorityValue h ''Low'' False s =
          (None, s\<lparr>priorityClass := IDLE_PRIORITY_CLASS,
                   os_calls := os_calls s @ [SetPriorityClass_call IDLE_PRIORITY_CLASS],
                   log := log s @ [(Info, ''Set the game's CPU priority to Low.'')]\<rparr>))"
proof (intro conjI impI)
  show a: "ProcessCPUPriorityValue h ''Low'' True s =
     (None, s\<lparr>log := log s @ [(Info, ''SC4 set its CPU priority to Low.'')]\<rparr>)"
    by (simp add: ProcessCPUPriorityValue_def select_Low WriteLine_def)
  show "os_calls (snd (ProcessCPUPriorityValue h ''Low'' True s)) = os_calls s"
    by (simp add: a)
  show "os_calls (snd (ProcessCPUPriorityValue h ''Low'' False s)) =
       os_calls s @ [SetPriorityClass_call IDLE_PRIORITY_CLASS]"
    by (simp add: PCPV_os_calls select_Low priority_classes_nonzero)
  show "ProcessCPUPriorityValue h ''Low'' False s =
          (None, s\<lparr>priorityClass := IDLE_PRIORITY_CLASS,
                   os_calls := os_calls s @ [SetPriorityClass_call IDLE_PRIORITY_CLASS],
                   log := log s @ [(Info, ''Set the game's CPU priority to Low.'')]\<rparr>)"
    if "SetPriorityClass_error h IDLE_PRIORITY_CLASS = None"
    using PCPV_success [OF select_Low(2) priority_classes_nonzero(5) that]
    by (simp add: c_str_def)
qed

theorem ProcessCPUPriorityValue_Low_witness:
  "SetPriorityClass_error example_host IDLE_PRIORITY_CLASS = None
   \<and> ProcessCPUPriorityValue example_host ''Low'' True example_world =
       (None, example_world\<lparr>log := [(Info, ''SC4 set its CPU priority to Low.'')]\<rparr>)
   \<and> ProcessCPUPriorityValue example_host ''Low'' False example_world =
       (None, example_world\<lparr>priorityClass := IDLE_PRIORITY_CLASS,
          os_calls := [SetPriorityClass_call IDLE_PRIORITY_CLASS],
          log := [(Info, ''Set the game's CPU priority to Low.'')]\<rparr>)"
proof -
  have ok: "SetPriorityClass_error example_host IDLE_PRIORITY_CLASS = None"
    by (simp add: example_host_def)
  have e: "log example_world = []" "os_calls example_world = []"
    by (simp_all add: example_world_def)
  from ProcessCPUPriorityValue_Low [of example_host example_world] ok e
  show ?thesis by simp
qed


text \<open>
  Claim C3. Whatever the command line, the configuration file and the outcomes of the
  operating-system calls, one run of \<open>OnStart\<close> adds at most one call of
  \<open>SetPriorityClass\<close> to the calls made so far.
\<close>

theorem OnStart_sets_priority_at_most_once:
  "\<exists>cs. os_calls (snd (OnStart h s)) = os_calls s @ cs
        \<and> length (filter is_SetPriorityClass_call cs) \<le> 1"
proof -
  obtain cs1 where cs1: "os_calls (snd (OnStart_CPUCount h s)) = os_calls s @ cs1"
    "filter is_SetPriorityClass_call cs1 = []"
    using OnStart_CPUCount_calls [of h s] by blast
  obtain cs2 where cs2:
    "os_calls (snd (OnStart_CPUPriority h (snd (OnStart_CPUCount h s)))) =
       os_calls (snd (OnStart_CPUCount h s)) @ cs2" "length cs2 \<le> 1"
    using OnStart_CPUPriority_calls [of h "snd (OnStart_CPUCount h s)"] by blast
  have "length (filter is_SetPriorityClass_call (cs1 @ cs2)) =
      length (filter is_SetPriorityClass_call cs2)"
    using cs1(2) by simp
  also have "\<dots> \<le> length cs2" by (rule length_filter_le)
  also have "\<dots> \<le> 1" by (rule cs2(2))
  finally have "length (filter is_SetPriorityClass_call (cs1 @ cs2)) \<le> 1" .
  moreover have "os_calls (snd (OnStart h s)) = os_calls s @ (cs1 @ cs2)"
    by (simp add: OnStart_eq cs1(1) cs2(1))
  ultimately show ?thesis by blast
qed

theorem OnStart_sets_priority_at_most_once_witness:
  "os_calls (snd (OnStart example_host example_world)) =
     [GetProcessAffinityMask_call, SetProcessAffinityMask_call 2,
      SetPriorityClass_call ABOVE_NORMAL_PRIORITY_CLASS]
   \<and> length (filter is_SetPriorityClass_call (os_calls (snd (OnStart example_host example_world)))) \<le> 1"
proof -
  from OnStart_sets_priority_at_most_once [of example_host example_world]
  obtain cs where cs: "os_calls (snd (OnStart example_host example_world)) = os_calls example_world @ cs"
    "length (filter is_SetPriorityClass_call cs) \<le> 1" by blast
  have "os_calls example_world = []" by (simp add: example_world_def)
  with cs have "length (filter is_SetPriorityClass_call
      (os_calls (snd (OnStart example_host example_world)))) \<le> 1" by simp
  then show ?thesis by (simp add: example_run)
qed

subsection \<open>Start-up\<close>

text \<open>
  Claim C4. \<open>OnStart\<close> returns \<open>true\<close> for every host and every state: no exception
  leaves it, and none leaves \<open>ConfigureForSingleCPU\<close>, \<open>ProcessCPUPriorityValue\<close> or
  \<open>SetCPUPriorityFromConfigFile\<close>, each of which catches what is thrown inside it.
\<close>

theorem OnStart_always_returns_true:
  "fst (OnStart h s) = Inr True
   \<and> fst (ConfigureForSingleCPU h s) = None
   \<and> fst (ProcessCPUPriorityValue h p b s) = None
   \<and> fst (SetCPUPriorityFromConfigFile h s) = None"
  by (simp add: OnStart_fst CFS_fst PCPV_fst SCFF_fst)


theorem OnStart_always_returns_true_witness:
  "fst (OnStart example_host example_world) = Inr True
   \<and> fst (OnStart (example_host\<lparr>configFile := CannotOpen,
          GetProcessAffinityMask_error := Some ''Access is denied.''\<rparr>) example_world) = Inr True
   \<and> fst (ConfigureForSingleCPU (example_host\<lparr>GetProcessAffinityMask_error :=
          Some ''Access is denied.''\<rparr>) example_world) = None
   \<and> fst (ProcessCPUPriorityValue (example_host\<lparr>SetPriorityClass_error :=
          (\<lambda>c. Some ''Access is denied.'')\<rparr>) ''High'' True example_world) = None
   \<and> fst (SetCPUPriorityFromConfigFile (example_host\<lparr>configFile := CannotOpen\<rparr>)
          example_world) = None"
  using OnStart_always_returns_true [of example_host example_world "''High''" True]
    OnStart_always_returns_true [of "example_host\<lparr>configFile := CannotOpen,
          GetProcessAffinityMask_error := Some ''Access is denied.''\<rparr>" example_world "''High''" True]
    OnStart_always_returns_true [of "example_host\<lparr>GetProcessAffinityMask_error :=
          Some ''Access is denied.''\<rparr>" example_world "''High''" True]
    OnStart_always_returns_true [of "example_host\<lparr>SetPriorityClass_error :=
          (\<lambda>c. Some ''Access is denied.'')\<rparr>" example_world "''High''" True]
    OnStart_always_returns_true [of "example_host\<lparr>configFile := CannotOpen\<rparr>"
          example_world "''High''" True]
  by simp

text \<open>
  Claim C5. With neither switch on the command line, \<open>Priority=AboveNormal\<close> in the
  configuration file, a processor available and an operating system that accepts the
  calls, \<open>OnStart\<close> returns \<open>true\<close>; the affinity mask of the process becomes the lowest
  set bit of the system mask, its priority class \<open>ABOVE_NORMAL_PRIORITY_CLASS\<close>; three
  calls are made; and exactly two lines are logged, both informational.
\<close>

theorem OnStart_defaults_with_AboveNormal:
  fixes h :: "'w::len word host" and s :: "'w word world"
  assumes "switches h ''CPUCount'' = None" and "switches h ''CPUPriority'' = None"
    and "configFile h = Parsed tree"
    and "tree ''CPUOptions.Priority'' = Some ''AboveNormal''"
    and "systemAffinityMask s \<noteq> 0"
    and "GetProcessAffinityMask_error h = None"
    and "SetProcessAffinityMask_error h (GetLowestSetBitMask (systemAffinityMask s)) = None"
    and "SetPriorityClass_error h ABOVE_NORMAL_PRIORITY_CLASS = None"
  shows "OnStart h s =
     (Inr True,
      s\<lparr>processAffinityMask := GetLowestSetBitMask (systemAffinityMask s),
        priorityClass := ABOVE_NORMAL_PRIORITY_CLASS,
        os_calls := os_calls s @
          [GetProcessAffinityMask_call,
           SetProcessAffinityMask_call (GetLowestSetBitMask (systemAffinityMask s)),
           SetPriorityClass_call ABOVE_NORMAL_PRIORITY_CLASS],
        log := log s @
          [(Info, ''Configured the game to use 1 CPU core.''),
           (Info, ''Set the game's CPU priority to AboveNormal.'')]\<rparr>)
    \<and> (\<exists>n<LENGTH('w).
           bit (systemAffinityMask s) n \<and> (\<forall>i<n. \<not> bit (systemAffinityMask s) i)
         \<and> GetLowestSetBitMask (systemAffinityMask s) = 2 ^ n)"
proof
  have a: "OnStart_CPUCount h s =
     (None, s\<lparr>processAffinityMask := GetLowestSetBitMask (systemAffinityMask s),
        os_calls := os_calls s @ [GetProcessAffinityMask_call,
           SetProcessAffinityMask_call (GetLowestSetBitMask (systemAffinityMask s))],
        log := log s @ [(Info, ''Configured the game to use 1 CPU core.'')]\<rparr>)"
    using CFS_success [OF assms(6) assms(7)] assms(1) by (simp add: OnStart_CPUCount_def)
  have b: "OnStart_CPUPriority h s1 =
     (None, s1\<lparr>priorityClass := ABOVE_NORMAL_PRIORITY_CLASS,
        os_calls := os_calls s1 @ [SetPriorityClass_call ABOVE_NORMAL_PRIORITY_CLASS],
        log := log s1 @ [(Info, ''Set the game's CPU priority to AboveNormal.'')]\<rparr>)" for s1
    using SCFF_Parsed_Some [OF assms(3) assms(4), of s1] assms(2)
      PCPV_success [OF select_AboveNormal priority_classes_nonzero(2) assms(8), of False s1]
    by (simp add: OnStart_CPUPriority_def c_str_def)
  show "OnStart h s =
     (Inr True,
      s\<lparr>processAffinityMask := GetLowestSetBitMask (systemAffinityMask s),
        priorityClass := ABOVE_NORMAL_PRIORITY_CLASS,
        os_calls := os_calls s @
          [GetProcessAffinityMask_call,
           SetProcessAffinityMask_call (GetLowestSetBitMask (systemAffinityMask s)),
           SetPriorityClass_call ABOVE_NORMAL_PRIORITY_CLASS],
        log := log s @
          [(Info, ''Configured the game to use 1 CPU core.''),
           (Info, ''Set the game's CPU priority to AboveNormal.'')]\<rparr>)"
    by (simp add: OnStart_eq a b)
  show "\<exists>n<LENGTH('w).
           bit (systemAffinityMask s) n \<and> (\<forall>i<n. \<not> bit (systemAffinityMask s) i)
         \<and> GetLowestSetBitMask (systemAffinityMask s) = 2 ^ n"
    using assms(5) by (rule lowest_set_bit)
qed


theorem OnStart_defaults_with_AboveNormal_witness:
  "switches example_host ''CPUCount'' = None \<and> switches example_host ''CPUPriority'' = None
   \<and> configFile example_host = Parsed [''CPUOptions.Priority'' \<mapsto> ''AboveNormal'']
   \<and> systemAffinityMask example_world \<noteq> 0
   \<and> GetProcessAffinityMask_error example_host = None
   \<and> SetProcessAffinityMask_error example_host 2 = None
   \<and> SetPriorityClass_error example_host ABOVE_NORMAL_PRIORITY_CLASS = None
   \<and> OnStart example_host example_world =
     (Inr True,
      \<lparr>processAffinityMask = 2, systemAffinityMask = 0xA,
       priorityClass = ABOVE_NORMAL_PRIORITY_CLASS,
       os_calls = [GetProcessAffinityMask_call, SetProcessAffinityMask_call 2,
                   SetPriorityClass_call ABOVE_NORMAL_PRIORITY_CLASS],
       log = [(Info, ''Configured the game to use 1 CPU core.''),
              (Info, ''Set the game's CPU priority to AboveNormal.'')]\<rparr>)"
proof -
  have low: "GetLowestSetBitMask (systemAffinityMask example_world) = 2"
    by (simp add: example_world_def GetLowestSetBitMask_def)
  have h: "switches example_host ''CPUCount'' = None"
    "switches example_host ''CPUPriority'' = None"
    "configFile example_host = Parsed [''CPUOptions.Priority'' \<mapsto> ''AboveNormal'']"
    "GetProcessAffinityMask_error example_host = None"
    "SetProcessAffinityMask_error example_host m = None"
    "SetPriorityClass_error example_host c = None" for m c
    by (simp_all add: example_host_def)
  have t: "[''CPUOptions.Priority'' \<mapsto> ''AboveNormal''] ''CPUOptions.Priority'' =
      Some ''AboveNormal''" by simp
  have m: "systemAffinityMask example_world \<noteq> 0" by (simp add: example_world_def)
  note r = OnStart_defaults_with_AboveNormal
    [OF h(1) h(2) h(3) t m h(4) h(5) h(6), THEN conjunct1, unfolded low]
  have "OnStart example_host example_world =
     (Inr True,
      \<lparr>processAffinityMask = 2, systemAffinityMask = 0xA,
       priorityClass = ABOVE_NORMAL_PRIORITY_CLASS,
       os_calls = [GetProcessAffinityMask_call, SetProcessAffinityMask_call 2,
                   SetPriorityClass_call ABOVE_NORMAL_PRIORITY_CLASS],
       log = [(Info, ''Configured the game to use 1 CPU core.''),
              (Info, ''Set the game's CPU priority to AboveNormal.'')]\<rparr>)"
    unfolding r by (simp add: example_world_def)
  with h m show ?thesis by simp
qed

subsection \<open>Priority names\<close>

text \<open>
  Claim C6. If \<open>p'\<close> is a case variant of \<open>p\<close>, the chain of comparisons of
  \<open>ProcessCPUPriorityValue\<close> chooses the same priority class for both, so the calls
  made to the operating system and the resulting priority class of the process are the
  same; \<open>high\<close>, \<open>HIGH\<close> and \<open>High\<close> all give \<open>HIGH_PRIORITY_CLASS\<close>.
\<close>

theorem priority_names_case_insensitive:
  assumes "case_variant p p'"
  shows "fst (ProcessCPUPriorityValue_select p b s) = fst (ProcessCPUPriorityValue_select p' b s)
       \<and> os_calls (snd (ProcessCPUPriorityValue h p b s)) =
           os_calls (snd (ProcessCPUPriorityValue h p' b s))
       \<and> priorityClass (snd (ProcessCPUPriorityValue h p b s)) =
           priorityClass (snd (ProcessCPUPriorityValue h p' b s))
       \<and> fst (ProcessCPUPriorityValue_select ''high'' b s) = HIGH_PRIORITY_CLASS
       \<and> fst (ProcessCPUPriorityValue_select ''HIGH'' b s) = HIGH_PRIORITY_CLASS
       \<and> fst (ProcessCPUPriorityValue_select ''High'' b s) = HIGH_PRIORITY_CLASS"
proof -
  note e = select_fst_case_variant [OF assms, of b s s]
  show ?thesis
    by (simp add: PCPV_os_calls PCPV_priorityClass e)
      (simp add: ProcessCPUPriorityValue_select_def High_variants)
qed

theorem priority_names_case_insensitive_witness:
  "case_variant ''aBoVeNoRmAl'' ''AboveNormal''
   \<and> fst (ProcessCPUPriorityValue_select ''aBoVeNoRmAl'' False example_world) =
       ABOVE_NORMAL_PRIORITY_CLASS
   \<and> os_calls (snd (ProcessCPUPriorityValue example_host ''aBoVeNoRmAl'' False example_world)) =
       [SetPriorityClass_call ABOVE_NORMAL_PRIORITY_CLASS]
   \<and> priorityClass (snd (ProcessCPUPriorityValue example_host ''aBoVeNoRmAl'' False example_world)) =
       ABOVE_NORMAL_PRIORITY_CLASS"
proof -
  have v: "case_variant ''aBoVeNoRmAl'' ''AboveNormal''" by code_simp
  have ok: "SetPriorityClass_error example_host ABOVE_NORMAL_PRIORITY_CLASS = None"
    by (simp add: example_host_def)
  have r: "ProcessCPUPriorityValue example_host ''AboveNormal'' False example_world =
      (None, example_world\<lparr>priorityClass := ABOVE_NORMAL_PRIORITY_CLASS,
         os_calls := os_calls example_world @ [SetPriorityClass_call ABOVE_NORMAL_PRIORITY_CLASS],
         log := log example_world @ [(Info, ''Set the game's CPU priority to '' @ c_str ''AboveNormal'' @ ''.'')]\<rparr>)"
    by (rule PCPV_success [OF select_AboveNormal priority_classes_nonzero(2) ok])
  have e: "os_calls example_world = []" by (simp add: example_world_def)
  from priority_names_case_insensitive [OF v, of False example_world example_host]
  show ?thesis by (simp add: v r e select_AboveNormal)
qed

text \<open>
  Claim C7, as the code has it. For a string that matches none of the six names in any
  letter case, and for both values of the flag, \<open>ProcessCPUPriorityValue\<close> returns
  normally, makes no operating-system call, leaves the priority class alone and logs
  exactly one line, an error: \<open>Unsupported CPU priority value: \<close> followed by the value
  as \<open>%s\<close> prints it, that is, its bytes before the first zero byte. A value without a
  zero byte is printed whole, and the line contains it.
\<close>

theorem unsupported_priority_value:
  assumes "\<not> recognized p"
  shows "ProcessCPUPriorityValue h p b s =
           (None, s\<lparr>log := log s @ [(Error, ''Unsupported CPU priority value: '' @ c_str p)]\<rparr>)
       \<and> os_calls (snd (ProcessCPUPriorityValue h p b s)) = os_calls s
       \<and> priorityClass (snd (ProcessCPUPriorityValue h p b s)) = priorityClass s
       \<and> (CHR 0x00 \<notin> set p \<longrightarrow>
            c_str p = p \<and> sublist p (''Unsupported CPU priority value: '' @ c_str p))"
proof -
  have r: "ProcessCPUPriorityValue h p b s =
           (None, s\<lparr>log := log s @ [(Error, ''Unsupported CPU priority value: '' @ c_str p)]\<rparr>)"
    by (simp add: ProcessCPUPriorityValue_def ProcessCPUPriorityValue_select_def
        not_recognized [OF assms] WriteLineFormatted_def WriteLine_def sprintf_simps)
  have "sublist p (''Unsupported CPU priority value: '' @ p)"
    by (rule sublist_append_leftI)
  then show ?thesis by (simp add: r c_str_no_zero del: append.simps)
qed

theorem unsupported_priority_value_witness:
  "\<not> recognized ''bogus'' \<and> CHR 0x00 \<notin> set ''bogus''
   \<and> ProcessCPUPriorityValue example_host ''bogus'' True example_world =
        (None, example_world\<lparr>log := [(Error, ''Unsupported CPU priority value: bogus'')]\<rparr>)
   \<and> ProcessCPUPriorityValue example_host ''bogus'' False example_world =
        (None, example_world\<lparr>log := [(Error, ''Unsupported CPU priority value: bogus'')]\<rparr>)
   \<and> sublist ''bogus'' ''Unsupported CPU priority value: bogus''"
proof -
  have n: "\<not> recognized ''bogus''" by code_simp
  have z: "CHR 0x00 \<notin> set ''bogus''" by simp
  have e: "log example_world = []" by (simp add: example_world_def)
  from unsupported_priority_value [OF n, of example_host True example_world]
    unsupported_priority_value [OF n, of example_host False example_world] n z e
  show ?thesis by simp
qed

text \<open>
  Claim C7 as stated, with the error line containing the literal value for every
  unrecognised string, fails for a value with a zero byte, which the configuration file
  can supply: of the three bytes \<open>a\<close>, 0, \<open>b\<close> only \<open>a\<close> is logged.
\<close>

theorem unsupported_priority_value_zero_byte_counterexample:
  "\<not> recognized [CHR ''a'', CHR 0x00, CHR ''b'']
   \<and> log (snd (ProcessCPUPriorityValue example_host [CHR ''a'', CHR 0x00, CHR ''b''] False
        example_world)) = [(Error, ''Unsupported CPU priority value: a'')]
   \<and> \<not> sublist [CHR ''a'', CHR 0x00, CHR ''b''] ''Unsupported CPU priority value: a''"
proof -
  have n: "\<not> recognized [CHR ''a'', CHR 0x00, CHR ''b'']" by code_simp
  have s: "\<not> sublist [CHR ''a'', CHR 0x00, CHR ''b''] ''Unsupported CPU priority value: a''"
    by code_simp
  have c: "c_str [CHR ''a'', CHR 0x00, CHR ''b''] = ''a''" by (simp add: c_str_def)
  have "log (snd (ProcessCPUPriorityValue example_host [CHR ''a'', CHR 0x00, CHR ''b''] False
        example_world)) = [(Error, ''Unsupported CPU priority value: a'')]"
    by (simp add: ProcessCPUPriorityValue_def ProcessCPUPriorityValue_select_def
        not_recognized [OF n] WriteLineFormatted_def WriteLine_def sprintf_simps c
        example_world_def)
  with n s show ?thesis by simp
qed

subsection \<open>The switch CPUCount\<close>

text \<open>
  Claim C8. When the switch \<open>CPUCount\<close> is present with any value \<open>v\<close>, the first
  statement of \<open>OnStart\<close> only logs one informational line with the value;
  \<open>OnStart\<close> leaves the affinity mask of the process as it was and makes no call but
  calls of \<open>SetPriorityClass\<close>; and with any other value \<open>v'\<close> in place of \<open>v\<close> the
  final state is the same but for the log.
\<close>

theorem CPUCount_switch_suppresses_affinity:
  fixes h :: "'w::len word host" and s :: "'w word world"
  assumes "switches h ''CPUCount'' = Some v"
  shows "OnStart_CPUCount h s =
       (None, s\<lparr>log := log s @
          [(Info, ''Skipped forcing the game to a single CPU because the command line contains -CPUCount:''
             @ c_str v @ ''.'')]\<rparr>)
     \<and> processAffinityMask (snd (OnStart h s)) = processAffinityMask s
     \<and> (\<exists>cs. os_calls (snd (OnStart h s)) = os_calls s @ cs
            \<and> list_all is_SetPriorityClass_call cs)
     \<and> (\<forall>v'. (snd (OnStart (h\<lparr>switches := (switches h)(''CPUCount'' \<mapsto> v')\<rparr>) s))\<lparr>log := []\<rparr> =
              (snd (OnStart h s))\<lparr>log := []\<rparr>)"
proof (intro conjI allI)
  note a = OnStart_CPUCount_present [OF assms, of s]
  show "OnStart_CPUCount h s =
       (None, s\<lparr>log := log s @
          [(Info, ''Skipped forcing the game to a single CPU because the command line contains -CPUCount:''
             @ c_str v @ ''.'')]\<rparr>)"
    by (rule a)
  show "processAffinityMask (snd (OnStart h s)) = processAffinityMask s"
    by (simp add: OnStart_eq a OnStart_CPUPriority_affinity del: append.simps)
  show "\<exists>cs. os_calls (snd (OnStart h s)) = os_calls s @ cs
            \<and> list_all is_SetPriorityClass_call cs"
    using OnStart_CPUPriority_calls [of h "snd (OnStart_CPUCount h s)"]
    by (auto simp: OnStart_eq a simp del: append.simps)
  show "(snd (OnStart (h\<lparr>switches := (switches h)(''CPUCount'' \<mapsto> v')\<rparr>) s))\<lparr>log := []\<rparr> =
              (snd (OnStart h s))\<lparr>log := []\<rparr>" for v'
  proof -
    let ?h' = "h\<lparr>switches := (switches h)(''CPUCount'' \<mapsto> v')\<rparr>"
    have p: "switches ?h' ''CPUCount'' = Some v'" by simp
    have q: "OnStart_CPUPriority ?h' t = OnStart_CPUPriority h t" for t
      by (rule OnStart_CPUPriority_host_cong) simp_all
    show ?thesis
      by (simp add: OnStart_eq a OnStart_CPUCount_present [OF p] q
          OnStart_CPUPriority_log_irrelevant del: append.simps)
  qed
qed

theorem CPUCount_switch_suppresses_affinity_witness:
  "switches (example_host\<lparr>switches := [''CPUCount'' \<mapsto> ''4'']\<rparr>) ''CPUCount'' = Some ''4''
   \<and> processAffinityMask (snd (OnStart (example_host\<lparr>switches := [''CPUCount'' \<mapsto> ''4'']\<rparr>)
        example_world)) = 0xA
   \<and> (snd (OnStart (example_host\<lparr>switches := [''CPUCount'' \<mapsto> ''4'', ''CPUCount'' \<mapsto> ''x'']\<rparr>)
        example_world))\<lparr>log := []\<rparr> =
      (snd (OnStart (example_host\<lparr>switches := [''CPUCount'' \<mapsto> ''4'']\<rparr>) example_world))\<lparr>log := []\<rparr>"
proof -
  let ?h = "example_host\<lparr>switches := [''CPUCount'' \<mapsto> ''4'']\<rparr>"
  have p: "switches ?h ''CPUCount'' = Some ''4''" by simp
  have e: "processAffinityMask example_world = 0xA" by (simp add: example_world_def)
  note t = CPUCount_switch_suppresses_affinity [OF p, of example_world, THEN conjunct2]
  from t [THEN conjunct1] t [THEN conjunct2, THEN conjunct2, THEN spec, of "''x''"] e
  show ?thesis by simp
qed

subsection \<open>The configuration file\<close>

text \<open>
  Claim C9. When the configuration file cannot be opened, cannot be parsed, or has no
  value at \<open>CPUOptions.Priority\<close>, \<open>SetCPUPriorityFromConfigFile\<close> returns normally,
  changes nothing but the log, to which it adds one error line, makes no
  operating-system call, and \<open>OnStart\<close> returns \<open>true\<close>.
\<close>

theorem SetCPUPriorityFromConfigFile_without_value:
  fixes h :: "'w::len word host" and s :: "'w word world"
  assumes "configFile h = CannotOpen \<or> (\<exists>m. configFile h = ParseError m)
     \<or> (\<exists>tree. configFile h = Parsed tree \<and> tree ''CPUOptions.Priority'' = None)"
  shows "fst (SetCPUPriorityFromConfigFile h s) = None
     \<and> (\<exists>line. snd (SetCPUPriorityFromConfigFile h s) = s\<lparr>log := log s @ [(Error, line)]\<rparr>)
     \<and> os_calls (snd (SetCPUPriorityFromConfigFile h s)) = os_calls s
     \<and> priorityClass (snd (SetCPUPriorityFromConfigFile h s)) = priorityClass s
     \<and> fst (OnStart h s) = Inr True"
proof -
  from assms have "\<exists>line. SetCPUPriorityFromConfigFile h s =
      (None, s\<lparr>log := log s @ [(Error, line)]\<rparr>)"
    by (auto simp: SCFF_no_value simp del: append.simps)
  then obtain line where r: "SetCPUPriorityFromConfigFile h s =
      (None, s\<lparr>log := log s @ [(Error, line)]\<rparr>)" ..
  show ?thesis
  proof (intro conjI)
    show "\<exists>line. snd (SetCPUPriorityFromConfigFile h s) = s\<lparr>log := log s @ [(Error, line)]\<rparr>"
      by (rule exI [of _ line]) (simp add: r)
  qed (simp_all add: r OnStart_fst)
qed

theorem SetCPUPriorityFromConfigFile_without_value_witness:
  "configFile (example_host\<lparr>configFile := CannotOpen\<rparr>) = CannotOpen
   \<and> SetCPUPriorityFromConfigFile (example_host\<lparr>configFile := CannotOpen\<rparr>) example_world =
       (None, example_world\<lparr>log :=
          [(Error, ''Error when setting the CPU priority: Failed to open the settings file.'')]\<rparr>)
   \<and> os_calls (snd (SetCPUPriorityFromConfigFile (example_host\<lparr>configFile := CannotOpen\<rparr>)
        example_world)) = []
   \<and> priorityClass (snd (SetCPUPriorityFromConfigFile (example_host\<lparr>configFile := CannotOpen\<rparr>)
        example_world)) = NORMAL_PRIORITY_CLASS
   \<and> fst (OnStart (example_host\<lparr>configFile := CannotOpen\<rparr>) example_world) = Inr True"
proof -
  let ?h = "example_host\<lparr>configFile := CannotOpen\<rparr>"
  have c: "configFile ?h = CannotOpen" by simp
  have e: "os_calls example_world = []" "priorityClass example_world = NORMAL_PRIORITY_CLASS"
    "log example_world = []"
    by (simp_all add: example_world_def)
  have r: "SetCPUPriorityFromConfigFile ?h example_world =
       (None, example_world\<lparr>log :=
          [(Error, ''Error when setting the CPU priority: Failed to open the settings file.'')]\<rparr>)"
    using SCFF_no_value(1) [OF c, of example_world] e by simp
  from SetCPUPriorityFromConfigFile_without_value [of ?h example_world] c
  have "os_calls (snd (SetCPUPriorityFromConfigFile ?h example_world)) = os_calls example_world
     \<and> priorityClass (snd (SetCPUPriorityFromConfigFile ?h example_world)) = priorityClass example_world
     \<and> fst (OnStart ?h example_world) = Inr True"
    by simp
  with c e r show ?thesis by simp
qed

end
